theory Spec2Isabelle
  imports Complex_Main
begin

section \<open>Python values used by \<open>yolox/models/darknet.py\<close>\<close>

text \<open>
  Every \<open>raise\<close> of the Python code is a value. \<open>AssertionError\<close> carries the
  message of the failed \<open>assert\<close> (empty when the statement has none). The numeric
  engine behind the blocks (the tensor framework and \<open>network_blocks.py\<close>) reports
  its own failures as \<open>RuntimeError\<close>.
\<close>

datatype error =
    AssertionError string
  | OverflowError
  | ValueError
  | KeyError
  | IndexError
  | AttributeError string
  | RuntimeError

definition thenE :: "error + 'a \<Rightarrow> ('a \<Rightarrow> error + 'b) \<Rightarrow> error + 'b" where
  "thenE r f = (case r of Inl e \<Rightarrow> Inl e | Inr v \<Rightarrow> f v)"

text \<open>\<open>xs[i]\<close> for a literal index \<open>i \<ge> 0\<close>: out of range raises.\<close>

definition py_index :: "'a list \<Rightarrow> nat \<Rightarrow> error + 'a" where
  "py_index xs i = (if i < length xs then Inr (xs ! i) else Inl IndexError)"

subsection \<open>Floats\<close>

text \<open>
  A Python \<open>float\<close> is an IEEE 754 binary64 value. \<open>Finite m e\<close> stands for
  \<open>m * 2 ^ e\<close>; a double has \<open>\<bar>m\<bar> < 2 ^ 53\<close>, \<open>- 1074 \<le> e\<close> and a value
  below \<open>2 ^ 1024\<close>. The sign of a zero is not recorded: neither \<open>int\<close> nor
  \<open>round\<close> nor a product with a non-zero constant can tell the two zeros apart.
\<close>

datatype pyfloat = Finite int int | PosInf | NegInf | NaN

text \<open>The number of binary digits of a positive integer.\<close>

function bitlen :: "int \<Rightarrow> nat" where
  "bitlen n = (if n \<le> 0 then 0 else Suc (bitlen (n div 2)))"
  by pat_completeness auto
termination
  by (relation "measure nat") auto

declare bitlen.simps [simp del]

definition is_double :: "pyfloat \<Rightarrow> bool" where
  "is_double x = (case x of
       Finite m e \<Rightarrow> \<bar>m\<bar> < 2 ^ 53 \<and> - 1074 \<le> e \<and> int (bitlen \<bar>m\<bar>) + e \<le> 1024
     | _ \<Rightarrow> True)"

text \<open>The rational number a finite float denotes.\<close>

definition float_val :: "int \<Rightarrow> int \<Rightarrow> rat" where
  "float_val m e = of_int m * 2 powi e"

text \<open>
  \<open>rne_shift m k\<close> is \<open>m / 2 ^ k\<close> rounded to the nearest integer, a tie going to
  the even neighbour (the rounding of IEEE arithmetic and of Python's \<open>round\<close>).
\<close>

definition rne_shift :: "int \<Rightarrow> nat \<Rightarrow> int" where
  "rne_shift m k =
     (if k = 0 then m
      else let q = m div 2 ^ k; r = m mod 2 ^ k; half = 2 ^ (k - 1) in
        if r < half then q
        else if half < r then q + 1
        else if even q then q else q + 1)"

text \<open>
  The exact value \<open>m * 2 ^ e\<close> rounded to a double: the mantissa is cut to 53 bits
  (fewer in the subnormal range), and a result of \<open>2 ^ 1024\<close> or more overflows to an
  infinity.
\<close>

definition round_to_double :: "int \<Rightarrow> int \<Rightarrow> pyfloat" where
  "round_to_double m e =
     (let k = max (int (bitlen \<bar>m\<bar>) - 53) (- 1074 - e);
          m' = (if 0 < k then rne_shift m (nat k) else m);
          e' = (if 0 < k then e + k else e)
      in if 1024 < int (bitlen \<bar>m'\<bar>) + e'
         then (if m < 0 then NegInf else PosInf)
         else Finite m' e')"

text \<open>\<open>x * y\<close> on floats.\<close>

fun float_mul :: "pyfloat \<Rightarrow> pyfloat \<Rightarrow> pyfloat" where
  "float_mul NaN _ = NaN"
| "float_mul _ NaN = NaN"
| "float_mul (Finite m1 e1) (Finite m2 e2) = round_to_double (m1 * m2) (e1 + e2)"
| "float_mul (Finite m e) PosInf = (if m = 0 then NaN else if m < 0 then NegInf else PosInf)"
| "float_mul (Finite m e) NegInf = (if m = 0 then NaN else if m < 0 then PosInf else NegInf)"
| "float_mul PosInf (Finite m e) = (if m = 0 then NaN else if m < 0 then NegInf else PosInf)"
| "float_mul NegInf (Finite m e) = (if m = 0 then NaN else if m < 0 then PosInf else NegInf)"
| "float_mul PosInf PosInf = PosInf"
| "float_mul PosInf NegInf = NegInf"
| "float_mul NegInf PosInf = NegInf"
| "float_mul NegInf NegInf = PosInf"

text \<open>
  \<open>int(x)\<close> truncates toward zero; \<open>round(x)\<close> with one argument rounds to the
  nearest integer, ties to even. Both raise on an infinity and on a NaN.
\<close>

fun py_int :: "pyfloat \<Rightarrow> error + int" where
  "py_int (Finite m e) =
     Inr (if 0 \<le> e then m * 2 ^ nat e else sgn m * (\<bar>m\<bar> div 2 ^ nat (- e)))"
| "py_int PosInf = Inl OverflowError"
| "py_int NegInf = Inl OverflowError"
| "py_int NaN = Inl ValueError"

fun py_round :: "pyfloat \<Rightarrow> error + int" where
  "py_round (Finite m e) =
     Inr (if 0 \<le> e then m * 2 ^ nat e else rne_shift m (nat (- e)))"
| "py_round PosInf = Inl OverflowError"
| "py_round NegInf = Inl OverflowError"
| "py_round NaN = Inl ValueError"

section \<open>Blocks and modules\<close>

text \<open>
  The block classes come from \<open>network_blocks.py\<close>; a block is recorded with the
  arguments its constructor call passes, in the order of the call. An argument the call
  may leave to the callee's default is an option.
  \<^item> \<open>BaseConv in_channels out_channels kernel_size stride act\<close>
  \<^item> \<open>ResLayer in_channels\<close>
  \<^item> \<open>CSPLayer in_channels out_channels n shortcut depthwise act\<close>
  \<^item> \<open>Focus in_channels out_channels kernel_size act\<close>
  \<^item> \<open>SPPBottleneck in_channels out_channels activation\<close>
\<close>

datatype block =
    BaseConv int int int int string
  | ResLayer int
  | CSPLayer int int int "bool option" bool string
  | Focus int int int string
  | SPPBottleneck int int string

text \<open>
  The object under construction: an attribute is \<open>None\<close> until \<open>__init__\<close> has
  assigned it. A stage is the sequence of blocks of its \<open>nn.Sequential\<close>; the CSP
  stem, a single \<open>Focus\<close> module, is the sequence of that one block.
\<close>

record module =
  out_features :: "string list option"
  stem :: "block list option"
  dark2 :: "block list option"
  dark3 :: "block list option"
  dark4 :: "block list option"
  dark5 :: "block list option"

definition new_module :: module where
  "new_module = \<lparr>out_features = None, stem = None, dark2 = None, dark3 = None,
                  dark4 = None, dark5 = None\<rparr>"

definition get_attr :: "string \<Rightarrow> 'a option \<Rightarrow> error + 'a" where
  "get_attr name a = (case a of None \<Rightarrow> Inl (AttributeError name) | Some v \<Rightarrow> Inr v)"

section \<open>class Darknet\<close>

definition depth2blocks :: "int \<rightharpoonup> int list" where
  "depth2blocks = map_of [(21, [1, 2, 2, 1]), (53, [2, 8, 8, 4])]"

definition make_group_layer :: "int \<Rightarrow> int \<Rightarrow> int \<Rightarrow> block list" where
  "make_group_layer in_channels num_blocks stride =
     BaseConv in_channels (in_channels * 2) 3 stride ''lrelu''
       # replicate (nat num_blocks) (ResLayer (in_channels * 2))"

definition make_spp_block :: "int list \<Rightarrow> int \<Rightarrow> error + block list" where
  "make_spp_block filters_list in_filters =
     thenE (py_index filters_list 0) (\<lambda>f0.
     thenE (py_index filters_list 1) (\<lambda>f1.
       Inr [BaseConv in_filters f0 1 1 ''lrelu'',
            BaseConv f0 f1 3 1 ''lrelu'',
            SPPBottleneck f1 f0 ''lrelu'',
            BaseConv f0 f1 3 1 ''lrelu'',
            BaseConv f1 f0 1 1 ''lrelu'']))"

text \<open>
  \<open>Darknet.__init__\<close>. A failure returns the error together with the object as it is
  when the exception leaves the constructor.
\<close>

definition fails :: "module \<Rightarrow> error + 'a \<Rightarrow> ('a \<Rightarrow> (error \<times> module) + module)
    \<Rightarrow> (error \<times> module) + module" where
  "fails self r f = (case r of Inl e \<Rightarrow> Inl (e, self) | Inr v \<Rightarrow> f v)"

definition Darknet_init :: "int \<Rightarrow> int \<Rightarrow> int \<Rightarrow> string list \<Rightarrow> (error \<times> module) + module" where
  "Darknet_init depth in_channels stem_out_channels out_features' =
     (if out_features' = []
      then Inl (AssertionError ''please provide output features of Darknet'', new_module)
      else
        let self = new_module\<lparr>out_features := Some out_features'\<rparr>;
            self = self\<lparr>stem := Some
              (BaseConv in_channels stem_out_channels 3 1 ''lrelu''
                 # make_group_layer stem_out_channels 1 2)\<rparr>;
            in_channels = stem_out_channels * 2
        in
        if \<not> (depth = 21 \<or> depth = 53) then Inl (AssertionError [], self)
        else
          fails self (case depth2blocks depth of None \<Rightarrow> Inl KeyError | Some t \<Rightarrow> Inr t)
          (\<lambda>num_blocks.
          fails self (py_index num_blocks 0) (\<lambda>n0.
          let self = self\<lparr>dark2 := Some (make_group_layer in_channels n0 2)\<rparr>;
              in_channels = in_channels * 2 in
          fails self (py_index num_blocks 1) (\<lambda>n1.
          let self = self\<lparr>dark3 := Some (make_group_layer in_channels n1 2)\<rparr>;
              in_channels = in_channels * 2 in
          fails self (py_index num_blocks 2) (\<lambda>n2.
          let self = self\<lparr>dark4 := Some (make_group_layer in_channels n2 2)\<rparr>;
              in_channels = in_channels * 2 in
          fails self (py_index num_blocks 3) (\<lambda>n3.
          fails self (make_spp_block [in_channels, in_channels * 2] (in_channels * 2))
          (\<lambda>spp.
          Inr (self\<lparr>dark5 := Some (make_group_layer in_channels n3 2 @ spp)\<rparr>))))))))"

section \<open>class CSPDarknet\<close>

text \<open>
  Lines 100 and 101: the two derived sizes. The \<open>int\<close> operand of each product
  is converted to a float first: \<open>64\<close> to \<open>Finite 64 0\<close> and \<open>3\<close> to
  \<open>Finite 3 0\<close>, both exactly.
\<close>

definition base_channels :: "pyfloat \<Rightarrow> error + int" where
  "base_channels width_multiplier = py_int (float_mul width_multiplier (Finite 64 0))"

definition base_depth :: "pyfloat \<Rightarrow> error + int" where
  "base_depth depth_multiplier =
     thenE (py_round (float_mul depth_multiplier (Finite 3 0))) (\<lambda>r. Inr (max r 1))"

definition CSPDarknet_init ::
    "pyfloat \<Rightarrow> pyfloat \<Rightarrow> string list \<Rightarrow> string \<Rightarrow> bool \<Rightarrow> (error \<times> module) + module" where
  "CSPDarknet_init depth_multiplier width_multiplier out_features' act depthwise =
     (if out_features' = []
      then Inl (AssertionError ''please provide output features of Darknet'', new_module)
      else
        let self = new_module\<lparr>out_features := Some out_features'\<rparr> in
        fails self (base_channels width_multiplier) (\<lambda>bc.
        fails self (base_depth depth_multiplier) (\<lambda>bd.
        let self = self\<lparr>stem := Some [Focus 3 bc 3 act]\<rparr>;
            self = self\<lparr>dark2 := Some
              [BaseConv bc (bc * 2) 3 2 act,
               CSPLayer (bc * 2) (bc * 2) bd None depthwise act]\<rparr>;
            self = self\<lparr>dark3 := Some
              [BaseConv (bc * 2) (bc * 4) 3 2 act,
               CSPLayer (bc * 4) (bc * 4) (bd * 3) None depthwise act]\<rparr>;
            self = self\<lparr>dark4 := Some
              [BaseConv (bc * 4) (bc * 8) 3 2 act,
               CSPLayer (bc * 8) (bc * 8) (bd * 3) None depthwise act]\<rparr>;
            self = self\<lparr>dark5 := Some
              [BaseConv (bc * 8) (bc * 16) 3 2 act,
               SPPBottleneck (bc * 16) (bc * 16) act,
               CSPLayer (bc * 16) (bc * 16) bd (Some False) depthwise act]\<rparr>
        in Inr self)))"

section \<open>Forward evaluation\<close>

text \<open>
  A \<open>dict\<close> keeps its entries in insertion order: an association list with one
  entry per key. Storing under a key already present replaces the value in place;
  a new key goes to the end.
\<close>

fun dict_set :: "('k \<times> 'v) list \<Rightarrow> 'k \<Rightarrow> 'v \<Rightarrow> ('k \<times> 'v) list" where
  "dict_set [] k v = [(k, v)]"
| "dict_set ((k', v') # d) k v = (if k' = k then (k, v) # d else (k', v') # dict_set d k v)"

text \<open>\<open>{k: v for k, v in d.items() if k in names}\<close>\<close>

definition dict_comp :: "('k \<times> 'v) list \<Rightarrow> 'k list \<Rightarrow> ('k \<times> 'v) list" where
  "dict_comp d names =
     foldl (\<lambda>acc (k, v). if k \<in> set names then dict_set acc k v else acc) [] d"

text \<open>
  What a block computes belongs to the numeric engine, which is not part of this file:
  \<open>run b x\<close> is the engine's result for block \<open>b\<close> on tensor \<open>x\<close>, an error
  when the engine raises. \<open>nn.Sequential\<close> feeds each block the output of the one
  before and stops at the first error.
\<close>

fun run_seq :: "(block \<Rightarrow> 't \<Rightarrow> error + 't) \<Rightarrow> block list \<Rightarrow> 't \<Rightarrow> error + 't" where
  "run_seq run [] x = Inr x"
| "run_seq run (b # bs) x = thenE (run b x) (run_seq run bs)"

definition call_stage ::
    "(block \<Rightarrow> 't \<Rightarrow> error + 't) \<Rightarrow> string \<Rightarrow> block list option \<Rightarrow> 't \<Rightarrow> error + 't" where
  "call_stage run name stage x = thenE (get_attr name stage) (\<lambda>blocks. run_seq run blocks x)"

definition Darknet_forward ::
    "(block \<Rightarrow> 't \<Rightarrow> error + 't) \<Rightarrow> module \<Rightarrow> 't \<Rightarrow> error + (string \<times> 't) list" where
  "Darknet_forward run self x =
     (let outputs = [] in
      thenE (call_stage run ''stem'' (stem self) x) (\<lambda>x.
      let outputs = dict_set outputs ''stem'' x in
      thenE (call_stage run ''dark2'' (dark2 self) x) (\<lambda>x.
      let outputs = dict_set outputs ''dark2'' x in
      thenE (call_stage run ''dark3'' (dark3 self) x) (\<lambda>x.
      let outputs = dict_set outputs ''dark3'' x in
      thenE (call_stage run ''dark4'' (dark4 self) x) (\<lambda>x.
      let outputs = dict_set outputs ''dark4'' x in
      thenE (call_stage run ''dark5'' (dark5 self) x) (\<lambda>x.
      let outputs = dict_set outputs ''dark5'' x in
      thenE (get_attr ''out_features'' (out_features self)) (\<lambda>names.
      Inr (dict_comp outputs names))))))))"

definition CSPDarknet_forward ::
    "(block \<Rightarrow> 't \<Rightarrow> error + 't) \<Rightarrow> module \<Rightarrow> 't \<Rightarrow> error + (string \<times> 't) list" where
  "CSPDarknet_forward run self x =
     (let outputs = [] in
      thenE (call_stage run ''stem'' (stem self) x) (\<lambda>x.
      let outputs = dict_set outputs ''stem'' x in
      thenE (call_stage run ''dark2'' (dark2 self) x) (\<lambda>x.
      let outputs = dict_set outputs ''dark2'' x in
      thenE (call_stage run ''dark3'' (dark3 self) x) (\<lambda>x.
      let outputs = dict_set outputs ''dark3'' x in
      thenE (call_stage run ''dark4'' (dark4 self) x) (\<lambda>x.
      let outputs = dict_set outputs ''dark4'' x in
      thenE (call_stage run ''dark5'' (dark5 self) x) (\<lambda>x.
      let outputs = dict_set outputs ''dark5'' x in
      thenE (get_attr ''out_features'' (out_features self)) (\<lambda>names.
      Inr (dict_comp outputs names))))))))"

section \<open>Declared channel counts\<close>

text \<open>
  Modelled from the spec: \<open>network_blocks.py\<close>, which declares the block classes, is
  not among the sources. The spec's data model has each block record its input and
  output channel count: these are the first two constructor arguments, and a
  \<open>ResLayer\<close>, which adds its input to its result, keeps the count it is given.
\<close>

fun block_in :: "block \<Rightarrow> int" where
  "block_in (BaseConv i out k s a) = i"
| "block_in (ResLayer i) = i"
| "block_in (CSPLayer i out n sc dw a) = i"
| "block_in (Focus i out k a) = i"
| "block_in (SPPBottleneck i out a) = i"

fun block_out :: "block \<Rightarrow> int" where
  "block_out (BaseConv i out k s a) = out"
| "block_out (ResLayer i) = i"
| "block_out (CSPLayer i out n sc dw a) = out"
| "block_out (Focus i out k a) = out"
| "block_out (SPPBottleneck i out a) = out"

text \<open>Every block of the sequence takes the channel count the block before it gives.\<close>

fun chained :: "block list \<Rightarrow> bool" where
  "chained [] = True"
| "chained [b] = True"
| "chained (a # b # bs) = (block_out a = block_in b \<and> chained (b # bs))"

text \<open>The channel count a stage gives: that of its last block.\<close>

definition stage_out :: "block list option \<Rightarrow> int option" where
  "stage_out stage =
     (case stage of None \<Rightarrow> None | Some [] \<Rightarrow> None
      | Some (b # bs) \<Rightarrow> Some (block_out (last (b # bs))))"

text \<open>The blocks a stage attribute holds (none while it is unassigned), and the blocks
  of the whole network in evaluation order.\<close>

definition blocks_of :: "block list option \<Rightarrow> block list" where
  "blocks_of stage = (case stage of None \<Rightarrow> [] | Some bs \<Rightarrow> bs)"

definition all_blocks :: "module \<Rightarrow> block list" where
  "all_blocks self =
     blocks_of (stem self) @ blocks_of (dark2 self) @ blocks_of (dark3 self)
       @ blocks_of (dark4 self) @ blocks_of (dark5 self)"

text \<open>The repeat counts a stage declares: \<open>n\<close> of its CSP layers, and the number of
  its residual layers.\<close>

fun csp_repeats :: "block list \<Rightarrow> int list" where
  "csp_repeats [] = []"
| "csp_repeats (CSPLayer i out n sc dw a # bs) = n # csp_repeats bs"
| "csp_repeats (b # bs) = csp_repeats bs"

fun is_ResLayer :: "block \<Rightarrow> bool" where
  "is_ResLayer (ResLayer i) = True"
| "is_ResLayer b = False"

definition res_layers :: "block list \<Rightarrow> nat" where
  "res_layers bs = length (filter is_ResLayer bs)"

section \<open>The constructors\<close>

lemma depth2blocks_21: "depth2blocks 21 = Some [1, 2, 2, 1]"
  by (simp add: depth2blocks_def)

lemma depth2blocks_53: "depth2blocks 53 = Some [2, 8, 8, 4]"
  by (simp add: depth2blocks_def)

lemma Darknet_init_empty:
  "Darknet_init depth ic soc [] =
     Inl (AssertionError ''please provide output features of Darknet'', new_module)"
  by (simp add: Darknet_init_def)

lemma Darknet_init_bad_depth:
  assumes "feats \<noteq> []" and "depth \<noteq> 21" and "depth \<noteq> 53"
  shows "Darknet_init depth ic soc feats = Inl (AssertionError [],
     new_module\<lparr>out_features := Some feats,
       stem := Some (BaseConv ic soc 3 1 ''lrelu'' # make_group_layer soc 1 2)\<rparr>)"
  using assms by (simp add: Darknet_init_def Let_def)

text \<open>With a depth of the table the constructor runs to its end.\<close>

lemma Darknet_init_built:
  assumes "feats \<noteq> []" and "depth = 21 \<or> depth = 53"
    and "depth2blocks depth = Some [n0, n1, n2, n3]"
  shows "Darknet_init depth ic soc feats = Inr
     \<lparr>out_features = Some feats,
      stem = Some (BaseConv ic soc 3 1 ''lrelu'' # make_group_layer soc 1 2),
      dark2 = Some (make_group_layer (soc * 2) n0 2),
      dark3 = Some (make_group_layer (soc * 4) n1 2),
      dark4 = Some (make_group_layer (soc * 8) n2 2),
      dark5 = Some (make_group_layer (soc * 16) n3 2 @
        [BaseConv (soc * 32) (soc * 16) 1 1 ''lrelu'',
         BaseConv (soc * 16) (soc * 32) 3 1 ''lrelu'',
         SPPBottleneck (soc * 32) (soc * 16) ''lrelu'',
         BaseConv (soc * 16) (soc * 32) 3 1 ''lrelu'',
         BaseConv (soc * 32) (soc * 16) 1 1 ''lrelu''])\<rparr>"
  using assms
  by (simp add: Darknet_init_def fails_def py_index_def make_spp_block_def thenE_def
      new_module_def Let_def mult.commute)

lemma Darknet_init_Inr:
  assumes "Darknet_init depth ic soc feats = Inr self"
  shows "feats \<noteq> [] \<and> (depth = 21 \<or> depth = 53)"
proof -
  have "feats \<noteq> []"
    using assms by (auto simp: Darknet_init_empty)
  moreover have "depth = 21 \<or> depth = 53"
    using assms \<open>feats \<noteq> []\<close> Darknet_init_bad_depth [of feats depth ic soc] by auto
  ultimately show ?thesis ..
qed

lemma CSPDarknet_init_empty:
  "CSPDarknet_init dm wm [] act dw =
     Inl (AssertionError ''please provide output features of Darknet'', new_module)"
  by (simp add: CSPDarknet_init_def)

lemma CSPDarknet_init_built:
  assumes "feats \<noteq> []" and "base_channels wm = Inr bc" and "base_depth dm = Inr bd"
  shows "CSPDarknet_init dm wm feats act dw = Inr
     \<lparr>out_features = Some feats,
      stem = Some [Focus 3 bc 3 act],
      dark2 = Some [BaseConv bc (bc * 2) 3 2 act,
                    CSPLayer (bc * 2) (bc * 2) bd None dw act],
      dark3 = Some [BaseConv (bc * 2) (bc * 4) 3 2 act,
                    CSPLayer (bc * 4) (bc * 4) (bd * 3) None dw act],
      dark4 = Some [BaseConv (bc * 4) (bc * 8) 3 2 act,
                    CSPLayer (bc * 8) (bc * 8) (bd * 3) None dw act],
      dark5 = Some [BaseConv (bc * 8) (bc * 16) 3 2 act,
                    SPPBottleneck (bc * 16) (bc * 16) act,
                    CSPLayer (bc * 16) (bc * 16) bd (Some False) dw act]\<rparr>"
  using assms by (simp add: CSPDarknet_init_def fails_def new_module_def)

lemma CSPDarknet_init_Inr:
  assumes "CSPDarknet_init dm wm feats act dw = Inr self"
  shows "feats \<noteq> [] \<and> (\<exists>bc bd. base_channels wm = Inr bc \<and> base_depth dm = Inr bd)"
  using assms
  by (auto simp: CSPDarknet_init_def fails_def Let_def split: if_splits sum.splits)

lemma res_layers_group: "res_layers (make_group_layer c n s) = nat n"
  by (simp add: res_layers_def make_group_layer_def)

lemma res_layers_append: "res_layers (xs @ ys) = res_layers xs + res_layers ys"
  by (simp add: res_layers_def)

section \<open>The forward pass\<close>

lemma dict_set_fresh: "k \<notin> fst ` set d \<Longrightarrow> dict_set d k v = d @ [(k, v)]"
  by (induction d) auto

lemma dict_comp_foldl:
  "distinct (map fst (acc @ d)) \<Longrightarrow>
   foldl (\<lambda>acc (k, v). if k \<in> set names then dict_set acc k v else acc) acc d =
     acc @ filter (\<lambda>(k, v). k \<in> set names) d"
proof (induction d arbitrary: acc)
  case Nil
  then show ?case by simp
next
  case (Cons kv d)
  obtain k v where kv: "kv = (k, v)" by (cases kv)
  from Cons.prems have fresh: "k \<notin> fst ` set acc"
    and rest: "distinct (map fst ((acc @ [(k, v)]) @ d))"
    and rest': "distinct (map fst (acc @ d))"
    by (auto simp: kv)
  show ?case
  proof (cases "k \<in> set names")
    case True
    then show ?thesis
      using Cons.IH [OF rest] fresh by (simp add: kv dict_set_fresh)
  next
    case False
    then show ?thesis
      using Cons.IH [OF rest'] by (simp add: kv)
  qed
qed

text \<open>On a dict the comprehension is a filter that keeps the order of the entries.\<close>

lemma dict_comp_distinct:
  "distinct (map fst d) \<Longrightarrow> dict_comp d names = filter (\<lambda>(k, v). k \<in> set names) d"
  using dict_comp_foldl [of "[]" d names] by (simp add: dict_comp_def)

lemma Darknet_forward_eq:
  assumes "stem self = Some s1" "dark2 self = Some s2" "dark3 self = Some s3"
    "dark4 self = Some s4" "dark5 self = Some s5" "out_features self = Some names"
  shows "Darknet_forward run self x =
     thenE (run_seq run s1 x) (\<lambda>x1.
     thenE (run_seq run s2 x1) (\<lambda>x2.
     thenE (run_seq run s3 x2) (\<lambda>x3.
     thenE (run_seq run s4 x3) (\<lambda>x4.
     thenE (run_seq run s5 x4) (\<lambda>x5.
       Inr (filter (\<lambda>(k, v). k \<in> set names)
         [(''stem'', x1), (''dark2'', x2), (''dark3'', x3), (''dark4'', x4),
          (''dark5'', x5)]))))))"
  using assms
  by (simp add: Darknet_forward_def call_stage_def get_attr_def thenE_def dict_comp_distinct
      split: sum.splits)

text \<open>The two classes have the same \<open>forward\<close>.\<close>

lemma CSPDarknet_forward_eq: "CSPDarknet_forward = Darknet_forward"
  by (intro ext) (simp add: CSPDarknet_forward_def Darknet_forward_def)

lemma thenE_Inr_iff: "thenE r f = Inr v \<longleftrightarrow> (\<exists>a. r = Inr a \<and> f a = Inr v)"
  by (cases r) (simp_all add: thenE_def)

lemma thenE_Inl_iff: "thenE r f = Inl e \<longleftrightarrow> r = Inl e \<or> (\<exists>a. r = Inr a \<and> f a = Inl e)"
  by (cases r) (simp_all add: thenE_def)

lemma run_seq_Inl:
  "run_seq run bs x = Inl e \<Longrightarrow> \<exists>b y. b \<in> set bs \<and> run b y = Inl e"
proof (induction bs arbitrary: x)
  case Nil
  then show ?case by simp
next
  case (Cons b bs)
  from Cons.prems consider "run b x = Inl e" | y where "run b x = Inr y" "run_seq run bs y = Inl e"
    by (auto simp: thenE_Inl_iff)
  then show ?case
  proof cases
    case 1
    then show ?thesis by auto
  next
    case 2
    with Cons.IH [of y] show ?thesis by auto
  qed
qed

text \<open>A network either constructor returns has all its attributes.\<close>

lemma built_stages:
  assumes "Darknet_init depth ic soc feats = Inr self \<or>
           CSPDarknet_init dm wm feats act dw = Inr self"
  shows "out_features self = Some feats \<and>
    (\<exists>s1 s2 s3 s4 s5. stem self = Some s1 \<and> dark2 self = Some s2 \<and> dark3 self = Some s3 \<and>
       dark4 self = Some s4 \<and> dark5 self = Some s5)"
  using assms
proof
  assume d: "Darknet_init depth ic soc feats = Inr self"
  then have f: "feats \<noteq> []" and dd: "depth = 21 \<or> depth = 53"
    using Darknet_init_Inr by blast+
  from dd show ?thesis
  proof
    assume "depth = 21"
    with d Darknet_init_built [OF f _ depth2blocks_21, of ic soc] show ?thesis by auto
  next
    assume "depth = 53"
    with d Darknet_init_built [OF f _ depth2blocks_53, of ic soc] show ?thesis by auto
  qed
next
  assume c: "CSPDarknet_init dm wm feats act dw = Inr self"
  then obtain bc bd where "feats \<noteq> []" "base_channels wm = Inr bc" "base_depth dm = Inr bd"
    using CSPDarknet_init_Inr by blast
  from CSPDarknet_init_built [OF this, of act dw] c show ?thesis by auto
qed

text \<open>\<open>forward\<close> returns exactly when the five stages evaluate one after the other.\<close>

lemma forward_Inr_iff:
  assumes "stem self = Some s1" "dark2 self = Some s2" "dark3 self = Some s3"
    "dark4 self = Some s4" "dark5 self = Some s5" "out_features self = Some names"
  shows "Darknet_forward run self x = Inr res \<longleftrightarrow>
     (\<exists>x1 x2 x3 x4 x5.
        run_seq run s1 x = Inr x1 \<and> run_seq run s2 x1 = Inr x2 \<and>
        run_seq run s3 x2 = Inr x3 \<and> run_seq run s4 x3 = Inr x4 \<and>
        run_seq run s5 x4 = Inr x5 \<and>
        res = filter (\<lambda>(k, v). k \<in> set names)
          [(''stem'', x1), (''dark2'', x2), (''dark3'', x3), (''dark4'', x4),
           (''dark5'', x5)])"
  unfolding Darknet_forward_eq [OF assms] thenE_Inr_iff sum.inject by blast

lemma forward_Inl:
  assumes "stem self = Some s1" "dark2 self = Some s2" "dark3 self = Some s3"
    "dark4 self = Some s4" "dark5 self = Some s5" "out_features self = Some names"
    and "Darknet_forward run self x = Inl e"
  shows "\<exists>b y. b \<in> set (all_blocks self) \<and> run b y = Inl e"
proof -
  from assms(7) obtain s y where "s \<in> {s1, s2, s3, s4, s5}" "run_seq run s y = Inl e"
    unfolding Darknet_forward_eq [OF assms(1-6)] thenE_Inl_iff by auto
  moreover have "set s \<subseteq> set (all_blocks self)" if "s \<in> {s1, s2, s3, s4, s5}"
    using that assms(1-5) by (auto simp: all_blocks_def blocks_of_def)
  ultimately show ?thesis
    using run_seq_Inl [of run s y e] by blast
qed

lemma keys_filter:
  "map fst (filter (\<lambda>(k, v). k \<in> S) kvs) = filter (\<lambda>k. k \<in> S) (map fst kvs)"
  by (induction kvs) auto

section \<open>Block counts of the fixed-depth network\<close>

text \<open>
  C3. The table \<open>depth2blocks\<close> gives \<open>[1, 2, 2, 1]\<close> for depth 21 and
  \<open>[2, 8, 8, 4]\<close> for depth 53, and the network \<open>Darknet.__init__\<close> builds for
  either depth has exactly that many \<open>ResLayer\<close> blocks in dark2, dark3, dark4 and
  dark5.
\<close>

theorem C3_fixed_depth_blocks:
  assumes "feats \<noteq> []"
  shows "depth2blocks 21 = Some [1, 2, 2, 1] \<and> depth2blocks 53 = Some [2, 8, 8, 4] \<and>
    (\<exists>self. Darknet_init 21 ic soc feats = Inr self \<and>
       map (\<lambda>stage. res_layers (blocks_of stage))
         [dark2 self, dark3 self, dark4 self, dark5 self] = [1, 2, 2, 1]) \<and>
    (\<exists>self. Darknet_init 53 ic soc feats = Inr self \<and>
       map (\<lambda>stage. res_layers (blocks_of stage))
         [dark2 self, dark3 self, dark4 self, dark5 self] = [2, 8, 8, 4])"
proof -
  have a: "\<exists>self. Darknet_init 21 ic soc feats = Inr self \<and>
       map (\<lambda>stage. res_layers (blocks_of stage))
         [dark2 self, dark3 self, dark4 self, dark5 self] = [1, 2, 2, 1]"
    using Darknet_init_built [OF assms _ depth2blocks_21, of ic soc]
    by (simp add: blocks_of_def res_layers_group res_layers_append)
       (simp add: res_layers_def)
  have b: "\<exists>self. Darknet_init 53 ic soc feats = Inr self \<and>
       map (\<lambda>stage. res_layers (blocks_of stage))
         [dark2 self, dark3 self, dark4 self, dark5 self] = [2, 8, 8, 4]"
    using Darknet_init_built [OF assms _ depth2blocks_53, of ic soc]
    by (simp add: blocks_of_def res_layers_group res_layers_append)
       (simp add: res_layers_def)
  from a b show ?thesis
    by (simp add: depth2blocks_21 depth2blocks_53)
qed

text \<open>The default arguments, for both depths.\<close>

theorem C3_fixed_depth_blocks_witness:
  "[''dark3'', ''dark4'', ''dark5''] \<noteq> [] \<and>
   (\<exists>self. Darknet_init 21 3 32 [''dark3'', ''dark4'', ''dark5''] = Inr self \<and>
       map (\<lambda>stage. res_layers (blocks_of stage))
         [dark2 self, dark3 self, dark4 self, dark5 self] = [1, 2, 2, 1]) \<and>
   (\<exists>self. Darknet_init 53 3 32 [''dark3'', ''dark4'', ''dark5''] = Inr self \<and>
       map (\<lambda>stage. res_layers (blocks_of stage))
         [dark2 self, dark3 self, dark4 self, dark5 self] = [2, 8, 8, 4])"
  using C3_fixed_depth_blocks [of "[''dark3'', ''dark4'', ''dark5'']" 3 32] by simp

section \<open>Failures of the constructors\<close>

text \<open>
  C6. With an empty \<open>out_features\<close> both constructors fail on their first
  \<open>assert\<close>, and the object then holds no stage: no block has been built.
\<close>

theorem C6_empty_output_set:
  "Darknet_init depth ic soc [] =
     Inl (AssertionError ''please provide output features of Darknet'', new_module) \<and>
   CSPDarknet_init dm wm [] act dw =
     Inl (AssertionError ''please provide output features of Darknet'', new_module) \<and>
   all_blocks new_module = [] \<and>
   [stem new_module, dark2 new_module, dark3 new_module, dark4 new_module, dark5 new_module]
     = [None, None, None, None, None]"
  by (simp add: Darknet_init_empty CSPDarknet_init_empty all_blocks_def blocks_of_def
      new_module_def)

text \<open>
  C7. \<open>Darknet.__init__\<close> fails with an \<open>AssertionError\<close> for every depth other
  than 21 and 53, whatever the other arguments; for depth 21 and for depth 53 it
  returns a network (the requested outputs being non-empty, as the first check of the
  constructor demands of every call).
\<close>

theorem C7_unsupported_depth:
  "(depth \<noteq> 21 \<and> depth \<noteq> 53 \<longrightarrow>
      (\<exists>msg s. Darknet_init depth ic soc feats = Inl (AssertionError msg, s))) \<and>
   (feats \<noteq> [] \<longrightarrow>
      (\<exists>self. Darknet_init 21 ic soc feats = Inr self) \<and>
      (\<exists>self. Darknet_init 53 ic soc feats = Inr self))"
proof (intro conjI impI)
  assume "depth \<noteq> 21 \<and> depth \<noteq> 53"
  then show "\<exists>msg s. Darknet_init depth ic soc feats = Inl (AssertionError msg, s)"
    using Darknet_init_bad_depth [of feats depth ic soc] Darknet_init_empty [of depth ic soc]
    by (cases "feats = []") auto
next
  assume "feats \<noteq> []"
  then show "\<exists>self. Darknet_init 21 ic soc feats = Inr self"
    using Darknet_init_built [OF _ _ depth2blocks_21, of feats ic soc] by simp
next
  assume "feats \<noteq> []"
  then show "\<exists>self. Darknet_init 53 ic soc feats = Inr self"
    using Darknet_init_built [OF _ _ depth2blocks_53, of feats ic soc] by simp
qed

text \<open>Depth 40 fails, depths 21 and 53 build.\<close>

theorem C7_unsupported_depth_witness:
  "(\<exists>msg s. Darknet_init 40 3 32 [''dark3'', ''dark4'', ''dark5''] = Inl (AssertionError msg, s)) \<and>
   (\<exists>self. Darknet_init 21 3 32 [''dark3'', ''dark4'', ''dark5''] = Inr self) \<and>
   (\<exists>self. Darknet_init 53 3 32 [''dark3'', ''dark4'', ''dark5''] = Inr self)"
  using C7_unsupported_depth [of 40 3 32 "[''dark3'', ''dark4'', ''dark5'']"] by simp

text \<open>
  C9. \<open>Darknet.__init__\<close> checks the depth only after it has assigned
  \<open>self.stem\<close>: when the check fails the object holds the requested names and the
  whole stem (a stride-1 \<open>BaseConv\<close>, then the stride-2 group layer: a
  \<open>BaseConv\<close> and one \<open>ResLayer\<close>) and no other stage. The check of an empty
  \<open>out_features\<close> comes before everything: there the object holds nothing.
\<close>

theorem C9_depth_check_after_stem:
  assumes "feats \<noteq> []" and "depth \<noteq> 21" and "depth \<noteq> 53"
  shows "Darknet_init depth ic soc feats = Inl (AssertionError [],
      \<lparr>out_features = Some feats,
       stem = Some [BaseConv ic soc 3 1 ''lrelu'',
                    BaseConv soc (soc * 2) 3 2 ''lrelu'', ResLayer (soc * 2)],
       dark2 = None, dark3 = None, dark4 = None, dark5 = None\<rparr>) \<and>
    Darknet_init depth ic soc [] =
      Inl (AssertionError ''please provide output features of Darknet'',
      \<lparr>out_features = None, stem = None,
       dark2 = None, dark3 = None, dark4 = None, dark5 = None\<rparr>)"
  using Darknet_init_bad_depth [OF assms, of ic soc] Darknet_init_empty [of depth ic soc]
  by (simp add: new_module_def make_group_layer_def)

text \<open>Depth 40 with the default arguments.\<close>

theorem C9_depth_check_after_stem_witness:
  "Darknet_init 40 3 32 [''dark3'', ''dark4'', ''dark5''] = Inl (AssertionError [],
      \<lparr>out_features = Some [''dark3'', ''dark4'', ''dark5''],
       stem = Some [BaseConv 3 32 3 1 ''lrelu'',
                    BaseConv 32 64 3 2 ''lrelu'', ResLayer 64],
       dark2 = None, dark3 = None, dark4 = None, dark5 = None\<rparr>)"
  using C9_depth_check_after_stem [of "[''dark3'', ''dark4'', ''dark5'']" 40 3 32] by simp

section \<open>Results of the forward pass\<close>

text \<open>
  C4. For a network of either class and any input: when \<open>forward\<close> returns, the keys
  of its result are the five stage names that are among the requested names, which
  depends on the set of requested names only, not on their order; and when it raises,
  the error is one the engine raised on a block of the network, so a requested name
  that is no stage name adds no key and raises nothing.
\<close>

theorem C4_output_keys:
  assumes "Darknet_init depth ic soc feats = Inr self \<and> forward = Darknet_forward \<or>
           CSPDarknet_init dm wm feats act dw = Inr self \<and> forward = CSPDarknet_forward"
  shows "(forward run self x = Inr res \<longrightarrow>
            set (map fst res) =
              {''stem'', ''dark2'', ''dark3'', ''dark4'', ''dark5''} \<inter> set feats) \<and>
         (forward run self x = Inl e \<longrightarrow>
            (\<exists>b y. b \<in> set (all_blocks self) \<and> run b y = Inl e))"
proof -
  from assms have fwd: "forward = Darknet_forward"
    by (auto simp: CSPDarknet_forward_eq)
  from assms have "Darknet_init depth ic soc feats = Inr self \<or>
      CSPDarknet_init dm wm feats act dw = Inr self"
    by blast
  from built_stages [OF this] obtain s1 s2 s3 s4 s5 where
    st: "stem self = Some s1" "dark2 self = Some s2" "dark3 self = Some s3"
      "dark4 self = Some s4" "dark5 self = Some s5" "out_features self = Some feats"
    by blast
  have keys: "set (map fst res) =
      {''stem'', ''dark2'', ''dark3'', ''dark4'', ''dark5''} \<inter> set feats"
    if "Darknet_forward run self x = Inr res"
  proof -
    from that obtain x1 x2 x3 x4 x5 where
      "res = filter (\<lambda>(k, v). k \<in> set feats)
         [(''stem'', x1), (''dark2'', x2), (''dark3'', x3), (''dark4'', x4), (''dark5'', x5)]"
      unfolding forward_Inr_iff [OF st] by blast
    then have "map fst res = filter (\<lambda>k. k \<in> set feats)
        (map fst [(''stem'', x1), (''dark2'', x2), (''dark3'', x3), (''dark4'', x4), (''dark5'', x5)])"
      by (simp only: keys_filter)
    then show ?thesis
      by (simp only: set_filter) auto
  qed
  show ?thesis
    unfolding fwd
  proof (intro conjI impI)
    assume "Darknet_forward run self x = Inr res"
    then show "set (map fst res) =
        {''stem'', ''dark2'', ''dark3'', ''dark4'', ''dark5''} \<inter> set feats"
      by (rule keys)
  next
    assume "Darknet_forward run self x = Inl e"
    then show "\<exists>b y. b \<in> set (all_blocks self) \<and> run b y = Inl e"
      by (rule forward_Inl [OF st])
  qed
qed

text \<open>
  The depth-21 network asked for \<open>dark5\<close>, the unknown \<open>fpn\<close> and \<open>dark3\<close>,
  run on an engine that tracks channel counts only.
\<close>

theorem C4_output_keys_witness:
  "set (map fst [(''dark3'', 256::int), (''dark5'', 512)]) =
     {''stem'', ''dark2'', ''dark3'', ''dark4'', ''dark5''} \<inter>
     set [''dark5'', ''fpn'', ''dark3'']"
proof -
  let ?R = "\<lambda>b c. if c = block_in b then Inr (block_out b) else Inl RuntimeError"
  let ?net = "\<lparr>out_features = Some [''dark5'', ''fpn'', ''dark3''],
       stem = Some [BaseConv 3 32 3 1 ''lrelu'', BaseConv 32 64 3 2 ''lrelu'', ResLayer 64],
       dark2 = Some [BaseConv 64 128 3 2 ''lrelu'', ResLayer 128],
       dark3 = Some [BaseConv 128 256 3 2 ''lrelu'', ResLayer 256, ResLayer 256],
       dark4 = Some [BaseConv 256 512 3 2 ''lrelu'', ResLayer 512, ResLayer 512],
       dark5 = Some [BaseConv 512 1024 3 2 ''lrelu'', ResLayer 1024,
                     BaseConv 1024 512 1 1 ''lrelu'', BaseConv 512 1024 3 1 ''lrelu'',
                     SPPBottleneck 1024 512 ''lrelu'', BaseConv 512 1024 3 1 ''lrelu'',
                     BaseConv 1024 512 1 1 ''lrelu'']\<rparr>"
  have built: "Darknet_init 21 3 32 [''dark5'', ''fpn'', ''dark3''] = Inr ?net"
    using Darknet_init_built [OF _ _ depth2blocks_21, of "[''dark5'', ''fpn'', ''dark3'']" 3 32]
    by (simp add: make_group_layer_def numeral_2_eq_2)
  have run: "Darknet_forward ?R ?net 3 = Inr [(''dark3'', 256), (''dark5'', 512)]"
    by (simp add: Darknet_forward_def call_stage_def get_attr_def thenE_def dict_comp_def)
  note keys = C4_output_keys [of 21 3 32 "[''dark5'', ''fpn'', ''dark3'']" ?net Darknet_forward,
      OF disjI1 [OF conjI [OF built refl]]]
  from keys [THEN conjunct1, THEN mp, OF run] show ?thesis .
qed


text \<open>
  C8. For a network of either class, \<open>forward\<close> returns exactly when all five stages,
  each fed the output of the one before, evaluate, whatever names are requested; the
  result is then the full mapping of the five stage outputs, restricted to the requested
  names.
\<close>

theorem C8_all_stages_then_filter:
  assumes "Darknet_init depth ic soc feats = Inr self \<and> forward = Darknet_forward \<or>
           CSPDarknet_init dm wm feats act dw = Inr self \<and> forward = CSPDarknet_forward"
  shows "\<exists>s1 s2 s3 s4 s5.
     stem self = Some s1 \<and> dark2 self = Some s2 \<and> dark3 self = Some s3 \<and>
     dark4 self = Some s4 \<and> dark5 self = Some s5 \<and>
     (\<forall>run x res. forward run self x = Inr res \<longleftrightarrow>
        (\<exists>x1 x2 x3 x4 x5.
           run_seq run s1 x = Inr x1 \<and> run_seq run s2 x1 = Inr x2 \<and>
           run_seq run s3 x2 = Inr x3 \<and> run_seq run s4 x3 = Inr x4 \<and>
           run_seq run s5 x4 = Inr x5 \<and>
           res = filter (\<lambda>(k, v). k \<in> set feats)
             [(''stem'', x1), (''dark2'', x2), (''dark3'', x3), (''dark4'', x4),
              (''dark5'', x5)]))"
proof -
  from assms have fwd: "forward = Darknet_forward"
    by (auto simp: CSPDarknet_forward_eq)
  from assms have "Darknet_init depth ic soc feats = Inr self \<or>
      CSPDarknet_init dm wm feats act dw = Inr self"
    by blast
  from built_stages [OF this] obtain s1 s2 s3 s4 s5 where
    st: "stem self = Some s1" "dark2 self = Some s2" "dark3 self = Some s3"
      "dark4 self = Some s4" "dark5 self = Some s5" "out_features self = Some feats"
    by blast
  show ?thesis
    unfolding fwd using st(1-5) forward_Inr_iff [OF st] by blast
qed

text \<open>The depth-21 network asked for \<open>dark3\<close> alone.\<close>

theorem C8_all_stages_then_filter_witness:
  "\<forall>res. Darknet_forward (\<lambda>b c. if c = block_in b then Inr (block_out b) else Inl RuntimeError)
      \<lparr>out_features = Some [''dark3''],
       stem = Some [BaseConv 3 32 3 1 ''lrelu'', BaseConv 32 64 3 2 ''lrelu'', ResLayer 64],
       dark2 = Some [BaseConv 64 128 3 2 ''lrelu'', ResLayer 128],
       dark3 = Some [BaseConv 128 256 3 2 ''lrelu'', ResLayer 256, ResLayer 256],
       dark4 = Some [BaseConv 256 512 3 2 ''lrelu'', ResLayer 512, ResLayer 512],
       dark5 = Some [BaseConv 512 1024 3 2 ''lrelu'', ResLayer 1024,
                     BaseConv 1024 512 1 1 ''lrelu'', BaseConv 512 1024 3 1 ''lrelu'',
                     SPPBottleneck 1024 512 ''lrelu'', BaseConv 512 1024 3 1 ''lrelu'',
                     BaseConv 1024 512 1 1 ''lrelu'']\<rparr> 3 = Inr res
    \<longleftrightarrow> res = [(''dark3'', 256)]"
proof -
  let ?net = "\<lparr>out_features = Some [''dark3''],
       stem = Some [BaseConv 3 32 3 1 ''lrelu'', BaseConv 32 64 3 2 ''lrelu'', ResLayer 64],
       dark2 = Some [BaseConv 64 128 3 2 ''lrelu'', ResLayer 128],
       dark3 = Some [BaseConv 128 256 3 2 ''lrelu'', ResLayer 256, ResLayer 256],
       dark4 = Some [BaseConv 256 512 3 2 ''lrelu'', ResLayer 512, ResLayer 512],
       dark5 = Some [BaseConv 512 1024 3 2 ''lrelu'', ResLayer 1024,
                     BaseConv 1024 512 1 1 ''lrelu'', BaseConv 512 1024 3 1 ''lrelu'',
                     SPPBottleneck 1024 512 ''lrelu'', BaseConv 512 1024 3 1 ''lrelu'',
                     BaseConv 1024 512 1 1 ''lrelu'']\<rparr>"
  have built: "Darknet_init 21 3 32 [''dark3''] = Inr ?net"
    using Darknet_init_built [OF _ _ depth2blocks_21, of "[''dark3'']" 3 32]
    by (simp add: make_group_layer_def numeral_2_eq_2)
  show ?thesis
    using C8_all_stages_then_filter [of 21 3 32 "[''dark3'']" ?net Darknet_forward,
        OF disjI1 [OF conjI [OF built refl]]]
    apply (simp del: run_seq.simps)
    apply (drule spec [where x = "\<lambda>b c. if c = block_in b then Inr (block_out b) else Inl RuntimeError"])
    apply (drule spec [where x = 3])
    apply (simp add: thenE_def)
    done
qed

text \<open>
  C10. The entries of the result follow the stage order stem, dark2, dark3, dark4,
  dark5, restricted to the requested names, whatever the order of the request; any two
  calls on the same network give the same sequence of keys.
\<close>

theorem C10_output_order:
  assumes "Darknet_init depth ic soc feats = Inr self \<and> forward = Darknet_forward \<or>
           CSPDarknet_init dm wm feats act dw = Inr self \<and> forward = CSPDarknet_forward"
    and "forward run self x = Inr res" and "forward run' self x' = Inr res'"
  shows "map fst res =
           filter (\<lambda>k. k \<in> set feats) [''stem'', ''dark2'', ''dark3'', ''dark4'', ''dark5''] \<and>
         map fst res' = map fst res"
proof -
  from assms(1) have fwd: "forward = Darknet_forward"
    by (auto simp: CSPDarknet_forward_eq)
  from assms(1) have "Darknet_init depth ic soc feats = Inr self \<or>
      CSPDarknet_init dm wm feats act dw = Inr self"
    by blast
  from built_stages [OF this] obtain s1 s2 s3 s4 s5 where
    st: "stem self = Some s1" "dark2 self = Some s2" "dark3 self = Some s3"
      "dark4 self = Some s4" "dark5 self = Some s5" "out_features self = Some feats"
    by blast
  have keys: "map fst r =
      filter (\<lambda>k. k \<in> set feats) [''stem'', ''dark2'', ''dark3'', ''dark4'', ''dark5'']"
    if "Darknet_forward f self y = Inr r" for f y r
  proof -
    from that obtain x1 x2 x3 x4 x5 where
      "r = filter (\<lambda>(k, v). k \<in> set feats)
         [(''stem'', x1), (''dark2'', x2), (''dark3'', x3), (''dark4'', x4), (''dark5'', x5)]"
      unfolding forward_Inr_iff [OF st] by blast
    then have "map fst r = filter (\<lambda>k. k \<in> set feats)
        (map fst [(''stem'', x1), (''dark2'', x2), (''dark3'', x3), (''dark4'', x4), (''dark5'', x5)])"
      by (simp only: keys_filter)
    then show ?thesis by simp
  qed
  from keys [of run x res] keys [of run' x' res'] assms(2,3) show ?thesis
    unfolding fwd by simp
qed

text \<open>The request \<open>dark5, fpn, dark3\<close> gives the keys \<open>dark3, dark5\<close>.\<close>

theorem C10_output_order_witness:
  "map fst [(''dark3'', 256::int), (''dark5'', 512)] =
     filter (\<lambda>k. k \<in> set [''dark5'', ''fpn'', ''dark3''])
       [''stem'', ''dark2'', ''dark3'', ''dark4'', ''dark5'']"
proof -
  let ?R = "\<lambda>b c. if c = block_in b then Inr (block_out b) else Inl RuntimeError"
  let ?net = "\<lparr>out_features = Some [''dark5'', ''fpn'', ''dark3''],
       stem = Some [BaseConv 3 32 3 1 ''lrelu'', BaseConv 32 64 3 2 ''lrelu'', ResLayer 64],
       dark2 = Some [BaseConv 64 128 3 2 ''lrelu'', ResLayer 128],
       dark3 = Some [BaseConv 128 256 3 2 ''lrelu'', ResLayer 256, ResLayer 256],
       dark4 = Some [BaseConv 256 512 3 2 ''lrelu'', ResLayer 512, ResLayer 512],
       dark5 = Some [BaseConv 512 1024 3 2 ''lrelu'', ResLayer 1024,
                     BaseConv 1024 512 1 1 ''lrelu'', BaseConv 512 1024 3 1 ''lrelu'',
                     SPPBottleneck 1024 512 ''lrelu'', BaseConv 512 1024 3 1 ''lrelu'',
                     BaseConv 1024 512 1 1 ''lrelu'']\<rparr>"
  have built: "Darknet_init 21 3 32 [''dark5'', ''fpn'', ''dark3''] = Inr ?net"
    using Darknet_init_built [OF _ _ depth2blocks_21, of "[''dark5'', ''fpn'', ''dark3'']" 3 32]
    by (simp add: make_group_layer_def numeral_2_eq_2)
  have run: "Darknet_forward ?R ?net 3 = Inr [(''dark3'', 256), (''dark5'', 512)]"
    by (simp add: Darknet_forward_def call_stage_def get_attr_def thenE_def dict_comp_def)
  note order = C10_output_order [of 21 3 32 "[''dark5'', ''fpn'', ''dark3'']" ?net
      Darknet_forward, OF disjI1 [OF conjI [OF built refl]] run run]
  from order [THEN conjunct1] show ?thesis .
qed

section \<open>Float arithmetic\<close>

lemma bitlen_le: "n < 2 ^ k \<Longrightarrow> bitlen n \<le> k"
proof (induction k arbitrary: n)
  case 0
  then show ?case by (simp add: bitlen.simps)
next
  case (Suc k)
  show ?case
  proof (cases "n \<le> 0")
    case True
    then show ?thesis by (simp add: bitlen.simps)
  next
    case False
    from Suc.prems have "n div 2 < 2 ^ k" by simp
    from Suc.IH [OF this] False show ?thesis
      by (subst bitlen.simps) simp
  qed
qed

lemma float_val_shift: "float_val (m * 2 ^ j) e = float_val m (e + int j)"
  by (simp add: float_val_def power_int_add)

text \<open>\<open>int(x)\<close> is the value of \<open>x\<close> truncated toward zero.\<close>

lemma py_int_trunc:
  "py_int (Finite m e) =
     Inr (if 0 \<le> float_val m e then \<lfloor>float_val m e\<rfloor> else \<lceil>float_val m e\<rceil>)"
proof (cases "0 \<le> e")
  case True
  then have v: "float_val m e = of_int (m * 2 ^ nat e)"
    by (simp add: float_val_def power_int_def)
  have "(if 0 \<le> float_val m e then \<lfloor>float_val m e\<rfloor> else \<lceil>float_val m e\<rceil>) = m * 2 ^ nat e"
    unfolding v by (simp only: floor_of_int ceiling_of_int if_cancel)
  then show ?thesis
    using True by simp
next
  case False
  define k where "k = nat (- e)"
  have v: "float_val m e = of_int m / of_int (2 ^ k)"
    using False by (simp add: float_val_def power_int_def k_def field_simps)
  have pos: "(0::int) < 2 ^ k" by simp
  have fl: "\<lfloor>(of_int m :: rat) / of_int (2 ^ k)\<rfloor> = m div 2 ^ k"
    by (rule floor_divide_of_int_eq)
  have ce: "\<lceil>(of_int m :: rat) / of_int (2 ^ k)\<rceil> = - ((- m) div 2 ^ k)"
    unfolding ceiling_def using floor_divide_of_int_eq [of "- m" "2 ^ k", where ?'a = rat]
    by simp
  have npos: "\<not> (2::int) ^ k \<le> 0"
    using pos by linarith
  have sg: "(0 \<le> (of_int m :: rat) / of_int (2 ^ k)) = (0 \<le> m)"
    by (simp add: pos_le_divide_eq)
  show ?thesis
    unfolding v sg fl ce using False by (auto simp: k_def sgn_if)
qed


text \<open>The product of a double with 64 is exact unless it overflows.\<close>

lemma mul64_exact:
  assumes "is_double (Finite m e)"
    and "float_mul (Finite m e) (Finite 64 0) = Finite m' e'"
  shows "float_val m' e' = float_val m e * 64"
proof -
  from assms(1) have m: "\<bar>m\<bar> < 2 ^ 53" and e: "- 1074 \<le> e"
    by (simp_all add: is_double_def)
  define k where "k = max (int (bitlen \<bar>m * 64\<bar>) - 53) (- 1074 - e)"
  have "\<bar>m * 64\<bar> < 2 ^ 59"
    using m by (simp add: abs_mult)
  then have "bitlen \<bar>m * 64\<bar> \<le> 59"
    by (rule bitlen_le)
  with e have k6: "k \<le> 6"
    by (simp add: k_def)
  have r: "Finite m' e' = Finite (if 0 < k then rne_shift (m * 64) (nat k) else m * 64)
      (if 0 < k then e + k else e)"
    using assms(2) by (simp add: round_to_double_def k_def Let_def split: if_splits)
  show ?thesis
  proof (cases "0 < k")
    case False
    with r show ?thesis
      by (simp add: float_val_def)
  next
    case True
    define j where "j = nat k"
    have j: "0 < j" "j \<le> 6" "k = int j"
      using True k6 by (simp_all add: j_def)
    have split: "m * 64 = (m * 2 ^ (6 - j)) * 2 ^ j"
      using j by (simp add: power_add [symmetric])
    have "rne_shift (m * 64) j = m * 2 ^ (6 - j)"
      unfolding split using j(1) by (simp add: rne_shift_def Let_def)
    with r True have "m' = m * 2 ^ (6 - j)" "e' = e + int j"
      by (simp_all add: j_def)
    then have "float_val m' e' = float_val m (e + int j + int (6 - j))"
      by (simp only: float_val_shift)
    also have "e + int j + int (6 - j) = e + 6"
      using j by simp
    also have "float_val m (e + 6) = float_val m e * 64"
      by (simp add: float_val_def power_int_add)
    finally show ?thesis .
  qed
qed

lemma rne_shift_nearest:
  "2 * \<bar>rne_shift m k * 2 ^ k - m\<bar> \<le> 2 ^ k \<and>
   (2 * \<bar>rne_shift m k * 2 ^ k - m\<bar> = 2 ^ k \<longrightarrow> even (rne_shift m k))"
proof (cases "k = 0")
  case True
  then show ?thesis by (simp add: rne_shift_def)
next
  case False
  define P :: int where "P = 2 ^ k"
  define h :: int where "h = 2 ^ (k - 1)"
  define q where "q = m div P"
  define r where "r = m mod P"
  have Ph: "P = 2 * h"
    using False by (simp add: P_def h_def power_eq_if)
  have hpos: "0 < h" by (simp add: h_def)
  have m: "m = q * P + r" by (simp add: q_def r_def)
  have r: "0 \<le> r" "r < P"
    using hpos Ph by (simp_all add: r_def)
  have res: "rne_shift m k =
      (if r < h then q else if h < r then q + 1 else if even q then q else q + 1)"
    using False by (simp add: rne_shift_def Let_def P_def h_def q_def r_def)
  consider "r < h" | "h < r" | "r = h" "even q" | "r = h" "odd q"
    by fastforce
  then show ?thesis
  proof cases
    case 1
    then have rs: "rne_shift m k = q" by (simp add: res)
    show ?thesis
      unfolding rs P_def [symmetric] using m r Ph 1 by simp
  next
    case 2
    then have rs: "rne_shift m k = q + 1" by (simp add: res)
    show ?thesis
      unfolding rs P_def [symmetric] using m r Ph 2 by (simp add: algebra_simps)
  next
    case 3
    then have rs: "rne_shift m k = q" by (simp add: res)
    show ?thesis
      unfolding rs P_def [symmetric] using m r Ph 3 by simp
  next
    case 4
    then have rs: "rne_shift m k = q + 1" by (simp add: res)
    show ?thesis
      unfolding rs P_def [symmetric] using m r Ph 4 by (simp add: algebra_simps)
  qed
qed

text \<open>\<open>round(x)\<close> is an integer nearest to the value of \<open>x\<close>, the even one at a tie.\<close>

lemma py_round_nearest:
  assumes "py_round (Finite m e) = Inr r"
  shows "\<bar>of_int r - float_val m e\<bar> \<le> 1 / 2 \<and>
         (\<bar>of_int r - float_val m e\<bar> = 1 / 2 \<longrightarrow> even r)"
proof (cases "0 \<le> e")
  case True
  then have "float_val m e = of_int (m * 2 ^ nat e)"
    by (simp add: float_val_def power_int_def)
  moreover from assms True have "r = m * 2 ^ nat e" by simp
  ultimately show ?thesis by simp
next
  case False
  define k where "k = nat (- e)"
  have v: "float_val m e = of_int m / 2 ^ k"
    using False by (simp add: float_val_def power_int_def k_def field_simps)
  from assms False have r: "r = rne_shift m k" by (simp add: k_def)
  have pos: "(0::rat) < 2 ^ k" by simp
  have "of_int r - float_val m e = of_int (r * 2 ^ k - m) / 2 ^ k"
    unfolding v by (simp add: field_simps)
  then have d: "\<bar>of_int r - float_val m e\<bar> = of_int \<bar>r * 2 ^ k - m\<bar> / 2 ^ k"
    by (simp only: abs_divide abs_of_pos [OF pos] of_int_abs)
  have le: "(of_int \<bar>r * 2 ^ k - m\<bar> / 2 ^ k \<le> (1 / 2 :: rat)) = (2 * \<bar>r * 2 ^ k - m\<bar> \<le> 2 ^ k)"
  proof -
    have "(of_int \<bar>r * 2 ^ k - m\<bar> / 2 ^ k \<le> (1 / 2 :: rat)) =
        ((of_int (2 * \<bar>r * 2 ^ k - m\<bar>) :: rat) \<le> of_int (2 ^ k))"
      by (simp add: field_simps)
    then show ?thesis by (simp only: of_int_le_iff)
  qed
  have eq: "(of_int \<bar>r * 2 ^ k - m\<bar> / 2 ^ k = (1 / 2 :: rat)) = (2 * \<bar>r * 2 ^ k - m\<bar> = 2 ^ k)"
  proof -
    have "(of_int \<bar>r * 2 ^ k - m\<bar> / 2 ^ k = (1 / 2 :: rat)) =
        ((of_int (2 * \<bar>r * 2 ^ k - m\<bar>) :: rat) = of_int (2 ^ k))"
      by (auto simp: field_simps)
    then show ?thesis by (simp only: of_int_eq_iff)
  qed
  have "2 * \<bar>r * 2 ^ k - m\<bar> \<le> 2 ^ k \<and> (2 * \<bar>r * 2 ^ k - m\<bar> = 2 ^ k \<longrightarrow> even r)"
    unfolding r by (rule rne_shift_nearest)
  then show ?thesis
    unfolding d le eq .
qed

text \<open>
  The product with 3 is rounded before \<open>round\<close> sees it. The double nearest to
  \<open>11 / 6\<close> lies below it, so three times its value lies below 5.5; the float
  product is 5.5 exactly, and \<open>round\<close> gives 6.
\<close>

lemma float_product_rounds:
  "is_double (Finite 8256599316845909 (- 52)) \<and>
   float_mul (Finite 8256599316845909 (- 52)) (Finite 3 0) = Finite 6192449487634432 (- 50) \<and>
   float_val 6192449487634432 (- 50) = 11 / 2 \<and>
   float_val 8256599316845909 (- 52) * 3 < 11 / 2 \<and>
   py_round (float_mul (Finite 8256599316845909 (- 52)) (Finite 3 0)) = Inr 6"
proof -
  have m: "float_mul (Finite 8256599316845909 (- 52)) (Finite 3 0) =
      Finite 6192449487634432 (- 50)"
    by (simp add: round_to_double_def bitlen.simps rne_shift_def)
  have d: "is_double (Finite 8256599316845909 (- 52))"
    by (simp add: is_double_def bitlen.simps)
  have v: "float_val 6192449487634432 (- 50) = 11 / 2"
    "float_val 8256599316845909 (- 52) * 3 < 11 / 2"
    by (simp_all add: float_val_def)
  have r: "py_round (Finite 6192449487634432 (- 50)) = Inr 6"
    by (simp add: rne_shift_def)
  from m d v r show ?thesis by simp
qed

section \<open>Channel counts\<close>

lemma chained_Cons: "chained (b # bs) \<longleftrightarrow> (bs = [] \<or> block_out b = block_in (hd bs)) \<and> chained bs"
  by (cases bs) auto

lemma chained_append:
  "chained (xs @ ys) \<longleftrightarrow>
     chained xs \<and> chained ys \<and> (xs = [] \<or> ys = [] \<or> block_out (last xs) = block_in (hd ys))"
proof (induction xs)
  case Nil
  then show ?case by simp
next
  case (Cons b xs)
  show ?case
  proof (cases "xs = []")
    case True
    then show ?thesis by (auto simp: chained_Cons)
  next
    case False
    then show ?thesis
      using Cons.IH by (auto simp: chained_Cons)
  qed
qed

lemma group_layer_chain:
  "chained (make_group_layer c n s) \<and> make_group_layer c n s \<noteq> [] \<and>
   block_in (hd (make_group_layer c n s)) = c \<and>
   block_out (last (make_group_layer c n s)) = c * 2"
proof -
  have rep: "chained (replicate k (ResLayer d))" for k d
  proof (induction k)
    case 0
    then show ?case by simp
  next
    case (Suc k)
    then show ?case by (cases k) (simp_all add: chained_Cons)
  qed
  show ?thesis
    by (cases "nat n") (simp_all add: make_group_layer_def chained_Cons rep)
qed

lemma stage_out_Some: "bs \<noteq> [] \<Longrightarrow> stage_out (Some bs) = Some (block_out (last bs))"
  by (cases bs) (simp_all add: stage_out_def)

text \<open>The wiring and the stage outputs of the fixed-depth network.\<close>

lemma Darknet_chained:
  assumes "Darknet_init depth ic soc feats = Inr self"
  shows "chained (all_blocks self) \<and>
    map stage_out [stem self, dark2 self, dark3 self, dark4 self, dark5 self] =
      [Some (soc * 2), Some (soc * 4), Some (soc * 8), Some (soc * 16), Some (soc * 16)]"
proof -
  from assms have f: "feats \<noteq> []" and dd: "depth = 21 \<or> depth = 53"
    using Darknet_init_Inr by blast+
  obtain n0 n1 n2 n3 where t: "depth2blocks depth = Some [n0, n1, n2, n3]"
    using dd depth2blocks_21 depth2blocks_53 by blast
  note g = group_layer_chain
  have self: "self = \<lparr>out_features = Some feats,
      stem = Some (BaseConv ic soc 3 1 ''lrelu'' # make_group_layer soc 1 2),
      dark2 = Some (make_group_layer (soc * 2) n0 2),
      dark3 = Some (make_group_layer (soc * 4) n1 2),
      dark4 = Some (make_group_layer (soc * 8) n2 2),
      dark5 = Some (make_group_layer (soc * 16) n3 2 @
        [BaseConv (soc * 32) (soc * 16) 1 1 ''lrelu'',
         BaseConv (soc * 16) (soc * 32) 3 1 ''lrelu'',
         SPPBottleneck (soc * 32) (soc * 16) ''lrelu'',
         BaseConv (soc * 16) (soc * 32) 3 1 ''lrelu'',
         BaseConv (soc * 32) (soc * 16) 1 1 ''lrelu''])\<rparr>"
    using Darknet_init_built [OF f dd t, of ic soc] assms by simp
  have "chained (all_blocks self)"
    unfolding self all_blocks_def blocks_of_def
    by (simp add: chained_append chained_Cons g)
  moreover have "map stage_out [stem self, dark2 self, dark3 self, dark4 self, dark5 self] =
      [Some (soc * 2), Some (soc * 4), Some (soc * 8), Some (soc * 16), Some (soc * 16)]"
    unfolding self by (simp add: stage_out_Some g)
  ultimately show ?thesis ..
qed

section \<open>Sizes of the CSP network\<close>

text \<open>The network \<open>CSPDarknet.__init__\<close> returns, in terms of the two derived sizes.\<close>

lemma CSPDarknet_init_self:
  assumes "CSPDarknet_init dm wm feats act dw = Inr self"
  shows "\<exists>bc bd. base_channels wm = Inr bc \<and> base_depth dm = Inr bd \<and>
     self = \<lparr>out_features = Some feats,
      stem = Some [Focus 3 bc 3 act],
      dark2 = Some [BaseConv bc (bc * 2) 3 2 act,
                    CSPLayer (bc * 2) (bc * 2) bd None dw act],
      dark3 = Some [BaseConv (bc * 2) (bc * 4) 3 2 act,
                    CSPLayer (bc * 4) (bc * 4) (bd * 3) None dw act],
      dark4 = Some [BaseConv (bc * 4) (bc * 8) 3 2 act,
                    CSPLayer (bc * 8) (bc * 8) (bd * 3) None dw act],
      dark5 = Some [BaseConv (bc * 8) (bc * 16) 3 2 act,
                    SPPBottleneck (bc * 16) (bc * 16) act,
                    CSPLayer (bc * 16) (bc * 16) bd (Some False) dw act]\<rparr>"
proof -
  from CSPDarknet_init_Inr [OF assms] obtain bc bd where
    h: "feats \<noteq> []" "base_channels wm = Inr bc" "base_depth dm = Inr bd"
    by blast
  from CSPDarknet_init_built [OF h, of act dw] assms h(2,3) show ?thesis
    by simp
qed

lemma base_depth_Inr:
  "base_depth dm = Inr bd \<longleftrightarrow>
     (\<exists>r. py_round (float_mul dm (Finite 3 0)) = Inr r \<and> bd = max r 1)"
  by (auto simp: base_depth_def thenE_def split: sum.splits)

text \<open>
  C2. In every network \<open>CSPDarknet.__init__\<close> returns, the repeat count \<open>n\<close> of
  the CSP layer is \<open>base_depth\<close> in dark2 and dark5 and \<open>3 * base_depth\<close> in dark3
  and dark4, where \<open>base_depth = max(round(depth_multiplier * 3), 1)\<close>: the product
  is the float product, and \<open>round\<close> gives an integer nearest to it, the even one at
  a tie.
\<close>

theorem C2_csp_repeat_counts:
  assumes "CSPDarknet_init dm wm feats act dw = Inr self"
  shows "\<exists>r. py_round (float_mul dm (Finite 3 0)) = Inr r \<and>
     base_depth dm = Inr (max r 1) \<and>
     csp_repeats (blocks_of (dark2 self)) = [max r 1] \<and>
     csp_repeats (blocks_of (dark3 self)) = [3 * max r 1] \<and>
     csp_repeats (blocks_of (dark4 self)) = [3 * max r 1] \<and>
     csp_repeats (blocks_of (dark5 self)) = [max r 1] \<and>
     (\<forall>m e. float_mul dm (Finite 3 0) = Finite m e \<longrightarrow>
        \<bar>of_int r - float_val m e\<bar> \<le> 1 / 2 \<and>
        (\<bar>of_int r - float_val m e\<bar> = 1 / 2 \<longrightarrow> even r))"
proof -
  from CSPDarknet_init_self [OF assms] obtain bc bd where
    bd: "base_depth dm = Inr bd" and self: "self = \<lparr>out_features = Some feats,
      stem = Some [Focus 3 bc 3 act],
      dark2 = Some [BaseConv bc (bc * 2) 3 2 act,
                    CSPLayer (bc * 2) (bc * 2) bd None dw act],
      dark3 = Some [BaseConv (bc * 2) (bc * 4) 3 2 act,
                    CSPLayer (bc * 4) (bc * 4) (bd * 3) None dw act],
      dark4 = Some [BaseConv (bc * 4) (bc * 8) 3 2 act,
                    CSPLayer (bc * 8) (bc * 8) (bd * 3) None dw act],
      dark5 = Some [BaseConv (bc * 8) (bc * 16) 3 2 act,
                    SPPBottleneck (bc * 16) (bc * 16) act,
                    CSPLayer (bc * 16) (bc * 16) bd (Some False) dw act]\<rparr>"
    by blast
  from bd obtain r where r: "py_round (float_mul dm (Finite 3 0)) = Inr r" "bd = max r 1"
    unfolding base_depth_Inr by blast
  have near: "\<bar>of_int r - float_val m e\<bar> \<le> 1 / 2 \<and>
        (\<bar>of_int r - float_val m e\<bar> = 1 / 2 \<longrightarrow> even r)"
    if "float_mul dm (Finite 3 0) = Finite m e" for m e
    using r(1) unfolding that by (rule py_round_nearest)
  have counts: "csp_repeats (blocks_of (dark2 self)) = [max r 1]"
    "csp_repeats (blocks_of (dark3 self)) = [3 * max r 1]"
    "csp_repeats (blocks_of (dark4 self)) = [3 * max r 1]"
    "csp_repeats (blocks_of (dark5 self)) = [max r 1]"
    unfolding self by (simp_all add: blocks_of_def r(2))
  from r(1) bd r(2) counts near show ?thesis
    by blast
qed

text \<open>
  Depth multiplier 1.0 gives the counts 3, 9, 9, 3; the double nearest to 0.33 gives
  \<open>round(0.99) = 1\<close>.
\<close>

theorem C2_csp_repeat_counts_witness:
  "py_round (float_mul (Finite 5944751508129055 (- 54)) (Finite 3 0)) = Inr 1 \<and>
   float_mul (Finite 1 0) (Finite 3 0) = Finite 3 0 \<and>
   (\<exists>self. CSPDarknet_init (Finite 1 0) (Finite 1 0) [''dark3'', ''dark4'', ''dark5'']
        ''silu'' False = Inr self \<and>
      csp_repeats (blocks_of (dark2 self)) = [3] \<and>
      csp_repeats (blocks_of (dark3 self)) = [9] \<and>
      csp_repeats (blocks_of (dark4 self)) = [9] \<and>
      csp_repeats (blocks_of (dark5 self)) = [3])"
proof -
  have m3: "float_mul (Finite 1 0) (Finite 3 0) = Finite 3 0"
    by (simp add: round_to_double_def bitlen.simps)
  have bc: "base_channels (Finite 1 0) = Inr 64"
    by (simp add: base_channels_def round_to_double_def bitlen.simps)
  have bd: "base_depth (Finite 1 0) = Inr 3"
    by (simp add: base_depth_def thenE_def round_to_double_def bitlen.simps)
  have s: "py_round (float_mul (Finite 5944751508129055 (- 54)) (Finite 3 0)) = Inr 1"
    by (simp add: round_to_double_def bitlen.simps rne_shift_def)
  have "\<exists>self. CSPDarknet_init (Finite 1 0) (Finite 1 0) [''dark3'', ''dark4'', ''dark5'']
        ''silu'' False = Inr self"
    using CSPDarknet_init_built [OF _ bc bd, of "[''dark3'', ''dark4'', ''dark5'']" "''silu''" False]
    by simp
  then obtain self where b: "CSPDarknet_init (Finite 1 0) (Finite 1 0)
      [''dark3'', ''dark4'', ''dark5''] ''silu'' False = Inr self" ..
  from C2_csp_repeat_counts [OF b] m3 have
    "csp_repeats (blocks_of (dark2 self)) = [3] \<and>
      csp_repeats (blocks_of (dark3 self)) = [9] \<and>
      csp_repeats (blocks_of (dark4 self)) = [9] \<and>
      csp_repeats (blocks_of (dark5 self)) = [3]"
    by simp
  with b m3 s show ?thesis by blast
qed

text \<open>
  C1, as the code has it. In every network \<open>CSPDarknet.__init__\<close> returns, the base
  channel count is \<open>int(width_multiplier * 64)\<close>, the product truncated toward zero
  (for a double the float product with 64 is exact, so this is the truncation of 64 times
  the multiplier's value), and the base repeat count is
  \<open>max(round(depth_multiplier * 3), 1)\<close>.
\<close>

theorem C1_base_sizes:
  assumes "CSPDarknet_init dm wm feats act dw = Inr self"
  shows "\<exists>bc r.
     py_int (float_mul wm (Finite 64 0)) = Inr bc \<and>
     py_round (float_mul dm (Finite 3 0)) = Inr r \<and>
     base_channels wm = Inr bc \<and> base_depth dm = Inr (max r 1) \<and>
     stem self = Some [Focus 3 bc 3 act] \<and>
     (\<forall>m e. wm = Finite m e \<and> is_double wm \<longrightarrow>
        bc = (if 0 \<le> float_val m e * 64 then \<lfloor>float_val m e * 64\<rfloor>
              else \<lceil>float_val m e * 64\<rceil>))"
proof -
  from CSPDarknet_init_self [OF assms] obtain bc bd where
    bc: "base_channels wm = Inr bc" and bd: "base_depth dm = Inr bd"
    and self: "stem self = Some [Focus 3 bc 3 act]"
    by auto
  from bd obtain r where r: "py_round (float_mul dm (Finite 3 0)) = Inr r" "bd = max r 1"
    unfolding base_depth_Inr by blast
  from bc have pi: "py_int (float_mul wm (Finite 64 0)) = Inr bc"
    by (simp add: base_channels_def)
  have tr: "bc = (if 0 \<le> float_val m e * 64 then \<lfloor>float_val m e * 64\<rfloor>
              else \<lceil>float_val m e * 64\<rceil>)"
    if w: "wm = Finite m e" and d: "is_double wm" for m e
  proof (cases "float_mul (Finite m e) (Finite 64 0)")
    case (Finite m' e')
    from mul64_exact [OF d [unfolded w] Finite] have v: "float_val m' e' = float_val m e * 64" .
    from pi [unfolded w Finite] show ?thesis
      unfolding py_int_trunc v by simp
  next
    case PosInf
    with pi w show ?thesis by simp
  next
    case NegInf
    with pi w show ?thesis by simp
  next
    case NaN
    with pi w show ?thesis by simp
  qed
  from pi r(1) bc bd r(2) self tr show ?thesis
    by blast
qed

text \<open>Width multiplier 0.68359375, which is \<open>175 / 256\<close>.\<close>

theorem C1_base_sizes_witness:
  "is_double (Finite 175 (- 8)) \<and>
   (\<exists>self. CSPDarknet_init (Finite 1 0) (Finite 175 (- 8)) [''dark3'', ''dark4'', ''dark5'']
        ''silu'' False = Inr self \<and>
      stem self = Some [Focus 3 \<lfloor>float_val 175 (- 8) * 64\<rfloor> 3 ''silu''])"
proof -
  have bc: "base_channels (Finite 175 (- 8)) = Inr 43"
    by (simp add: base_channels_def round_to_double_def bitlen.simps)
  have bd: "base_depth (Finite 1 0) = Inr 3"
    by (simp add: base_depth_def thenE_def round_to_double_def bitlen.simps)
  have dbl: "is_double (Finite 175 (- 8))"
    by (simp add: is_double_def bitlen.simps)
  have pos: "0 \<le> float_val 175 (- 8) * 64"
    by (simp add: float_val_def)
  have "\<exists>self. CSPDarknet_init (Finite 1 0) (Finite 175 (- 8)) [''dark3'', ''dark4'', ''dark5'']
        ''silu'' False = Inr self"
    using CSPDarknet_init_built [OF _ bc bd, of "[''dark3'', ''dark4'', ''dark5'']" "''silu''" False]
    by simp
  then obtain self where b: "CSPDarknet_init (Finite 1 0) (Finite 175 (- 8))
      [''dark3'', ''dark4'', ''dark5''] ''silu'' False = Inr self" ..
  from C1_base_sizes [OF b] obtain c where
    st: "stem self = Some [Focus 3 c 3 ''silu'']"
    and tr: "\<forall>m e. Finite 175 (- 8) = Finite m e \<and> is_double (Finite 175 (- 8)) \<longrightarrow>
        c = (if 0 \<le> float_val m e * 64 then \<lfloor>float_val m e * 64\<rfloor>
              else \<lceil>float_val m e * 64\<rceil>)"
    by blast
  from tr dbl pos have "c = \<lfloor>float_val 175 (- 8) * 64\<rfloor>"
    by simp
  with st b dbl show ?thesis by blast
qed

text \<open>
  The base channel count is not \<open>round(64 * width_multiplier)\<close>: for the width
  multiplier 0.68359375 the product is 43.75, which \<open>int\<close> takes to 43 and
  \<open>round\<close> to 44; the network built has a stem of 43 channels.
\<close>

theorem C1_counterexample:
  "base_channels (Finite 175 (- 8)) = Inr 43 \<and>
   py_round (float_mul (Finite 175 (- 8)) (Finite 64 0)) = Inr 44 \<and>
   base_channels (Finite 175 (- 8)) \<noteq> py_round (float_mul (Finite 175 (- 8)) (Finite 64 0)) \<and>
   float_val 175 (- 8) * 64 = 175 / 4 \<and>
   \<not> isl (CSPDarknet_init (Finite 1 0) (Finite 175 (- 8)) [''dark3'', ''dark4'', ''dark5'']
        ''silu'' False) \<and>
   stem (projr (CSPDarknet_init (Finite 1 0) (Finite 175 (- 8))
        [''dark3'', ''dark4'', ''dark5''] ''silu'' False)) = Some [Focus 3 43 3 ''silu'']"
proof -
  have bc: "base_channels (Finite 175 (- 8)) = Inr 43"
    by (simp add: base_channels_def round_to_double_def bitlen.simps)
  have bd: "base_depth (Finite 1 0) = Inr 3"
    by (simp add: base_depth_def thenE_def round_to_double_def bitlen.simps)
  have rd: "py_round (float_mul (Finite 175 (- 8)) (Finite 64 0)) = Inr 44"
    by (simp add: round_to_double_def bitlen.simps rne_shift_def)
  have v: "float_val 175 (- 8) * 64 = 175 / 4"
    by (simp add: float_val_def)
  note b = CSPDarknet_init_built [OF _ bc bd, of "[''dark3'', ''dark4'', ''dark5'']" "''silu''" False]
  from bc rd v show ?thesis
    by (simp add: b)
qed

section \<open>Channel progression\<close>

text \<open>
  C5, as the code has it. In a network of either class every block takes the channel
  count the block before it gives. The stages of a CSP network give \<open>base_channels\<close>
  times 1, 2, 4, 8 and 16. The stages of a fixed-depth network give
  \<open>stem_out_channels\<close> times 2, 4, 8, 16 and 16: the first convolution of dark5
  doubles the count to 32 times \<open>stem_out_channels\<close>, and the SPP block that ends
  dark5 brings it back to 16 times.
\<close>

theorem C5_channel_progression:
  "(Darknet_init depth ic soc feats = Inr self \<longrightarrow>
      chained (all_blocks self) \<and>
      map stage_out [stem self, dark2 self, dark3 self, dark4 self, dark5 self] =
        [Some (soc * 2), Some (soc * 4), Some (soc * 8), Some (soc * 16), Some (soc * 16)] \<and>
      block_out (hd (blocks_of (dark5 self))) = soc * 32) \<and>
   (CSPDarknet_init dm wm feats' act dw = Inr self' \<longrightarrow>
      (\<exists>bc. base_channels wm = Inr bc \<and>
        chained (all_blocks self') \<and>
        map stage_out [stem self', dark2 self', dark3 self', dark4 self', dark5 self'] =
          [Some bc, Some (bc * 2), Some (bc * 4), Some (bc * 8), Some (bc * 16)]))"
proof (intro conjI impI)
  assume d: "Darknet_init depth ic soc feats = Inr self"
  from Darknet_chained [OF d] show "chained (all_blocks self)"
    and "map stage_out [stem self, dark2 self, dark3 self, dark4 self, dark5 self] =
        [Some (soc * 2), Some (soc * 4), Some (soc * 8), Some (soc * 16), Some (soc * 16)]"
    by simp_all
  from d have f: "feats \<noteq> []" and dd: "depth = 21 \<or> depth = 53"
    using Darknet_init_Inr by blast+
  obtain n0 n1 n2 n3 where t: "depth2blocks depth = Some [n0, n1, n2, n3]"
    using dd depth2blocks_21 depth2blocks_53 by blast
  have "self = \<lparr>out_features = Some feats,
      stem = Some (BaseConv ic soc 3 1 ''lrelu'' # make_group_layer soc 1 2),
      dark2 = Some (make_group_layer (soc * 2) n0 2),
      dark3 = Some (make_group_layer (soc * 4) n1 2),
      dark4 = Some (make_group_layer (soc * 8) n2 2),
      dark5 = Some (make_group_layer (soc * 16) n3 2 @
        [BaseConv (soc * 32) (soc * 16) 1 1 ''lrelu'',
         BaseConv (soc * 16) (soc * 32) 3 1 ''lrelu'',
         SPPBottleneck (soc * 32) (soc * 16) ''lrelu'',
         BaseConv (soc * 16) (soc * 32) 3 1 ''lrelu'',
         BaseConv (soc * 32) (soc * 16) 1 1 ''lrelu''])\<rparr>"
    using Darknet_init_built [OF f dd t, of ic soc] d by simp
  then have "dark5 self = Some (make_group_layer (soc * 16) n3 2 @
        [BaseConv (soc * 32) (soc * 16) 1 1 ''lrelu'',
         BaseConv (soc * 16) (soc * 32) 3 1 ''lrelu'',
         SPPBottleneck (soc * 32) (soc * 16) ''lrelu'',
         BaseConv (soc * 16) (soc * 32) 3 1 ''lrelu'',
         BaseConv (soc * 32) (soc * 16) 1 1 ''lrelu''])"
    by simp
  then show "block_out (hd (blocks_of (dark5 self))) = soc * 32"
    by (simp add: blocks_of_def make_group_layer_def)
next
  assume c: "CSPDarknet_init dm wm feats' act dw = Inr self'"
  from CSPDarknet_init_self [OF c] obtain bc bd where
    bc: "base_channels wm = Inr bc" and self: "self' = \<lparr>out_features = Some feats',
      stem = Some [Focus 3 bc 3 act],
      dark2 = Some [BaseConv bc (bc * 2) 3 2 act,
                    CSPLayer (bc * 2) (bc * 2) bd None dw act],
      dark3 = Some [BaseConv (bc * 2) (bc * 4) 3 2 act,
                    CSPLayer (bc * 4) (bc * 4) (bd * 3) None dw act],
      dark4 = Some [BaseConv (bc * 4) (bc * 8) 3 2 act,
                    CSPLayer (bc * 8) (bc * 8) (bd * 3) None dw act],
      dark5 = Some [BaseConv (bc * 8) (bc * 16) 3 2 act,
                    SPPBottleneck (bc * 16) (bc * 16) act,
                    CSPLayer (bc * 16) (bc * 16) bd (Some False) dw act]\<rparr>"
    by blast
  have ch: "chained (all_blocks self')"
    unfolding self by (simp add: all_blocks_def blocks_of_def)
  have so: "map stage_out [stem self', dark2 self', dark3 self', dark4 self', dark5 self'] =
          [Some bc, Some (bc * 2), Some (bc * 4), Some (bc * 8), Some (bc * 16)]"
    unfolding self by (simp add: stage_out_def)
  show "\<exists>bc. base_channels wm = Inr bc \<and>
        chained (all_blocks self') \<and>
        map stage_out [stem self', dark2 self', dark3 self', dark4 self', dark5 self'] =
          [Some bc, Some (bc * 2), Some (bc * 4), Some (bc * 8), Some (bc * 16)]"
    using bc ch so by (intro exI [of _ bc] conjI)
qed

text \<open>The depth-53 network and the CSP network of multipliers 1.0, default arguments.\<close>

theorem C5_channel_progression_witness:
  "(\<exists>self. Darknet_init 53 3 32 [''dark3'', ''dark4'', ''dark5''] = Inr self \<and>
      chained (all_blocks self) \<and>
      map stage_out [stem self, dark2 self, dark3 self, dark4 self, dark5 self] =
        [Some 64, Some 128, Some 256, Some 512, Some 512]) \<and>
   (\<exists>self. CSPDarknet_init (Finite 1 0) (Finite 1 0) [''dark3'', ''dark4'', ''dark5'']
        ''silu'' False = Inr self \<and>
      chained (all_blocks self) \<and>
      map stage_out [stem self, dark2 self, dark3 self, dark4 self, dark5 self] =
        [Some 64, Some 128, Some 256, Some 512, Some 1024])"
proof -
  have bc: "base_channels (Finite 1 0) = Inr 64"
    by (simp add: base_channels_def round_to_double_def bitlen.simps)
  have bd: "base_depth (Finite 1 0) = Inr 3"
    by (simp add: base_depth_def thenE_def round_to_double_def bitlen.simps)
  have "\<exists>self. CSPDarknet_init (Finite 1 0) (Finite 1 0) [''dark3'', ''dark4'', ''dark5'']
        ''silu'' False = Inr self"
    using CSPDarknet_init_built [OF _ bc bd, of "[''dark3'', ''dark4'', ''dark5'']" "''silu''" False]
    by simp
  then obtain c where c: "CSPDarknet_init (Finite 1 0) (Finite 1 0)
      [''dark3'', ''dark4'', ''dark5''] ''silu'' False = Inr c" ..
  have "\<exists>self. Darknet_init 53 3 32 [''dark3'', ''dark4'', ''dark5''] = Inr self"
    using Darknet_init_built [OF _ _ depth2blocks_53, of "[''dark3'', ''dark4'', ''dark5'']" 3 32]
    by simp
  then obtain d where d: "Darknet_init 53 3 32 [''dark3'', ''dark4'', ''dark5''] = Inr d" ..
  note t = C5_channel_progression [of 53 3 32 "[''dark3'', ''dark4'', ''dark5'']" d
      "Finite 1 0" "Finite 1 0" "[''dark3'', ''dark4'', ''dark5'']" "''silu''" False c]
  from t [THEN conjunct1, THEN mp, OF d] have
    "chained (all_blocks d) \<and>
      map stage_out [stem d, dark2 d, dark3 d, dark4 d, dark5 d] =
        [Some 64, Some 128, Some 256, Some 512, Some 512]"
    by simp
  moreover from t [THEN conjunct2, THEN mp, OF c] bc have
    "chained (all_blocks c) \<and>
      map stage_out [stem c, dark2 c, dark3 c, dark4 c, dark5 c] =
        [Some 64, Some 128, Some 256, Some 512, Some 1024]"
    by simp
  ultimately show ?thesis
    using c d by (intro conjI exI [of _ d] exI [of _ c]) simp_all
qed

text \<open>
  The depth-21 network with 32 stem channels: dark4 and dark5 both give 512 channels,
  not 1024 after dark5.
\<close>

theorem C5_counterexample:
  "\<not> isl (Darknet_init 21 3 32 [''dark3'', ''dark4'', ''dark5'']) \<and>
   stage_out (dark4 (projr (Darknet_init 21 3 32 [''dark3'', ''dark4'', ''dark5'']))) = Some 512 \<and>
   stage_out (dark5 (projr (Darknet_init 21 3 32 [''dark3'', ''dark4'', ''dark5'']))) = Some 512 \<and>
   stage_out (dark5 (projr (Darknet_init 21 3 32 [''dark3'', ''dark4'', ''dark5''])))
     \<noteq> Some (32 * 32)"
  by (simp add: Darknet_init_built [OF _ _ depth2blocks_21] stage_out_Some make_group_layer_def)

end
